theory Spec2Isabelle
  imports Main "HOL-Library.AList"
begin

section \<open>Student management system: data model\<close>

text \<open>
  The program keeps two Python dictionaries, one of students keyed by student id and
  one of courses keyed by course code. Python dictionaries remember insertion order
  (the load-time repair loop and the saved file depend on it), so a dictionary is an
  association list here; \<open>k in d\<close> is membership in the keys, \<open>d[k]\<close> is
  \<open>map_of d k\<close>, and \<open>d[k] = v\<close> is \<open>AList.update k v d\<close>, which replaces the value
  in place when the key is present and appends the pair otherwise. A list whose keys
  are pairwise distinct is what a Python dictionary can hold.

  The fields have the types the source annotates: strings, an integer age, a list of
  course codes, a dictionary from course code to grade. Each entity owns its list and
  its dictionary (the constructors and \<open>json.load\<close> create fresh ones), so the
  in-place mutation of an object stored in the registry is the replacement of the
  value stored under its key.
\<close>

datatype error =
    ValueError string
  | KeyError string
  | FileNotFoundError
  | JSONDecodeError
  | OSError

type_synonym ('k, 'v) dict = "('k \<times> 'v) list"

definition keys :: "('k, 'v) dict \<Rightarrow> 'k set" where
  "keys d = fst ` set d"

record Person =
  name :: string
  age :: int
  address :: string

record Student = Person +
  student_id :: string
  grades :: "(string, string) dict"
  courses :: "string list"

record Course =
  course_name :: string
  course_code :: string
  instructor :: string
  students :: "string list"

record StudentManagementSystem =
  students :: "(string, Student) dict"
  courses :: "(string, Course) dict"

subsection \<open>Dictionary forms of the entities\<close>

text \<open>
  \<open>to_dict\<close> produces, and \<open>from_dict\<close> consumes, a dictionary with fixed string
  keys. A field of the records below is the value under the key of that name
  (without the prefix \<open>d_\<close>), and \<open>None\<close> when the key is absent, which a
  dictionary read from a file can be. The values have the annotated types: JSON
  that holds a value of another type under one of these keys is not represented,
  and what is proved of \<open>load_data\<close> is proved of documents of this shape.
\<close>

record person_dict =
  d_name :: "string option"
  d_age :: "int option"
  d_address :: "string option"

record student_dict = person_dict +
  d_student_id :: "string option"
  d_grades :: "(string, string) dict option"
  d_courses :: "string list option"

record course_dict =
  d_course_name :: "string option"
  d_course_code :: "string option"
  d_instructor :: "string option"
  d_students :: "string list option"

text \<open>The JSON document of a saved registry: the keys \<open>students\<close> and \<open>courses\<close>.\<close>

record document =
  data_students :: "(string, student_dict) dict option"
  data_courses :: "(string, course_dict) dict option"

text \<open>
  A file either holds text that \<open>json.load\<close> rejects or a document, which is what
  \<open>json.load\<close> returns for the text; the text itself is not modelled,
  \<open>json.load\<close> of what \<open>json.dump\<close> wrote in full being the dictionary that was
  written. The file system maps a file name to its content. \<open>open(filename, "w")\<close>
  raises the exception that \<open>open_for_writing\<close> gives for the name, if it gives
  one: \<open>FileNotFoundError\<close> for a directory that does not exist, another \<open>OSError\<close>
  for a directory or a file that may not be written.
\<close>

datatype file_content = Malformed | Document document

record filesystem =
  files :: "string \<rightharpoonup> file_content"
  open_for_writing :: "string \<rightharpoonup> error"

section \<open>Person, Student, Course\<close>

definition Person_init :: "string \<Rightarrow> int \<Rightarrow> string \<Rightarrow> Person" where
  "Person_init n a ad = \<lparr>name = n, age = a, address = ad\<rparr>"

definition Person_to_dict :: "'a Person_scheme \<Rightarrow> person_dict" where
  "Person_to_dict self = \<lparr>d_name = Some (name self), d_age = Some (age self),
     d_address = Some (address self)\<rparr>"

text \<open>\<open>data[k]\<close> raises \<open>KeyError(k)\<close> when the key is absent.\<close>

definition getitem :: "string \<Rightarrow> 'a option \<Rightarrow> error + 'a" where
  "getitem k v = (case v of None \<Rightarrow> Inl (KeyError k) | Some x \<Rightarrow> Inr x)"

text \<open>\<open>data.get(k, default)\<close>.\<close>

definition get_default :: "'a option \<Rightarrow> 'a \<Rightarrow> 'a" where
  "get_default v dflt = (case v of None \<Rightarrow> dflt | Some x \<Rightarrow> x)"

definition Person_from_dict :: "'a person_dict_scheme \<Rightarrow> error + Person" where
  "Person_from_dict data =
     (case getitem ''name'' (d_name data) of Inl e \<Rightarrow> Inl e | Inr n \<Rightarrow>
     (case getitem ''age'' (d_age data) of Inl e \<Rightarrow> Inl e | Inr a \<Rightarrow>
     (case getitem ''address'' (d_address data) of Inl e \<Rightarrow> Inl e | Inr ad \<Rightarrow>
      Inr (Person_init n a ad))))"

definition Student_init :: "string \<Rightarrow> int \<Rightarrow> string \<Rightarrow> string \<Rightarrow> Student" where
  "Student_init n a ad sid =
     \<lparr>name = n, age = a, address = ad, student_id = sid, grades = [], courses = []\<rparr>"

definition Student_add_grade :: "Student \<Rightarrow> string \<Rightarrow> string \<Rightarrow> error + Student" where
  "Student_add_grade self cc grade =
     (if cc \<notin> set (Student.courses self)
      then Inl (ValueError (''Student '' @ student_id self
                  @ '' is not enrolled in course '' @ cc @ ''.''))
      else Inr (self\<lparr>grades := AList.update cc grade (grades self)\<rparr>))"

definition Student_enroll_course :: "Student \<Rightarrow> string \<Rightarrow> error + Student" where
  "Student_enroll_course self cc =
     (if cc \<in> set (Student.courses self)
      then Inl (ValueError (''Student '' @ student_id self
                  @ '' already enrolled in '' @ cc @ ''.''))
      else Inr (self\<lparr>Student.courses := Student.courses self @ [cc]\<rparr>))"

definition Student_to_dict :: "Student \<Rightarrow> student_dict" where
  "Student_to_dict self =
     (let base = Person_to_dict self
      in \<lparr>d_name = d_name base, d_age = d_age base, d_address = d_address base,
          d_student_id = Some (student_id self),
          d_grades = Some (grades self),
          d_courses = Some (Student.courses self)\<rparr>)"

definition Student_from_dict :: "student_dict \<Rightarrow> error + Student" where
  "Student_from_dict data =
     (case getitem ''name'' (d_name data) of Inl e \<Rightarrow> Inl e | Inr n \<Rightarrow>
     (case getitem ''age'' (d_age data) of Inl e \<Rightarrow> Inl e | Inr a \<Rightarrow>
     (case getitem ''address'' (d_address data) of Inl e \<Rightarrow> Inl e | Inr ad \<Rightarrow>
     (case getitem ''student_id'' (d_student_id data) of Inl e \<Rightarrow> Inl e | Inr sid \<Rightarrow>
      (let s = Student_init n a ad sid;
           s = s\<lparr>grades := get_default (d_grades data) []\<rparr>;
           s = s\<lparr>Student.courses := get_default (d_courses data) []\<rparr>
       in Inr s)))))"

definition Course_init :: "string \<Rightarrow> string \<Rightarrow> string \<Rightarrow> Course" where
  "Course_init cn cc ins =
     \<lparr>course_name = cn, course_code = cc, instructor = ins, students = []\<rparr>"

definition Course_add_student :: "Course \<Rightarrow> string \<Rightarrow> error + Course" where
  "Course_add_student self sid =
     (if sid \<in> set (Course.students self)
      then Inl (ValueError (''Student '' @ sid @ '' already enrolled in ''
                  @ course_code self @ ''.''))
      else Inr (self\<lparr>Course.students := Course.students self @ [sid]\<rparr>))"

definition Course_to_dict :: "Course \<Rightarrow> course_dict" where
  "Course_to_dict self =
     \<lparr>d_course_name = Some (course_name self), d_course_code = Some (course_code self),
      d_instructor = Some (instructor self), d_students = Some (Course.students self)\<rparr>"

definition Course_from_dict :: "course_dict \<Rightarrow> error + Course" where
  "Course_from_dict data =
     (case getitem ''course_name'' (d_course_name data) of Inl e \<Rightarrow> Inl e | Inr cn \<Rightarrow>
     (case getitem ''course_code'' (d_course_code data) of Inl e \<Rightarrow> Inl e | Inr cc \<Rightarrow>
     (case getitem ''instructor'' (d_instructor data) of Inl e \<Rightarrow> Inl e | Inr ins \<Rightarrow>
      (let c = Course_init cn cc ins;
           c = c\<lparr>Course.students := get_default (d_students data) []\<rparr>
       in Inr c))))"

section \<open>The registry\<close>

text \<open>
  An operation that mutates the registry returns what it raised (\<open>Inl\<close>) or that it
  returned normally (\<open>Inr ()\<close>), together with the registry as the call leaves it:
  an exception undoes nothing that was assigned before it. What the program prints
  is left out, and with it \<open>display_student\<close> and \<open>display_course\<close>, which change
  nothing.
\<close>

definition StudentManagementSystem_init :: StudentManagementSystem where
  "StudentManagementSystem_init = \<lparr>students = [], courses = []\<rparr>"

definition add_student ::
  "StudentManagementSystem \<Rightarrow> string \<Rightarrow> int \<Rightarrow> string \<Rightarrow> string
     \<Rightarrow> (error + unit) \<times> StudentManagementSystem" where
  "add_student self n a ad sid =
     (if sid \<in> keys (students self)
      then (Inl (ValueError (''Student ID '' @ sid @ '' already exists.'')), self)
      else (Inr (), self\<lparr>students := AList.update sid (Student_init n a ad sid) (students self)\<rparr>))"

definition get_student :: "StudentManagementSystem \<Rightarrow> string \<Rightarrow> error + Student" where
  "get_student self sid =
     (case map_of (students self) sid of
        None \<Rightarrow> Inl (KeyError (''Student ID '' @ sid @ '' not found.''))
      | Some s \<Rightarrow> Inr s)"

definition add_course ::
  "StudentManagementSystem \<Rightarrow> string \<Rightarrow> string \<Rightarrow> string
     \<Rightarrow> (error + unit) \<times> StudentManagementSystem" where
  "add_course self cn cc ins =
     (if cc \<in> keys (courses self)
      then (Inl (ValueError (''Course code '' @ cc @ '' already exists.'')), self)
      else (Inr (), self\<lparr>courses := AList.update cc (Course_init cn cc ins) (courses self)\<rparr>))"

definition get_course :: "StudentManagementSystem \<Rightarrow> string \<Rightarrow> error + Course" where
  "get_course self cc =
     (case map_of (courses self) cc of
        None \<Rightarrow> Inl (KeyError (''Course code '' @ cc @ '' not found.''))
      | Some c \<Rightarrow> Inr c)"

text \<open>
  \<open>student.enroll_course\<close> mutates the student object stored under \<open>sid\<close>, then
  \<open>course.add_student\<close> the course object stored under \<open>cc\<close>; when the second
  raises, the first mutation stays.
\<close>

definition enroll_student_in_course ::
  "StudentManagementSystem \<Rightarrow> string \<Rightarrow> string
     \<Rightarrow> (error + unit) \<times> StudentManagementSystem" where
  "enroll_student_in_course self sid cc =
     (case get_student self sid of Inl e \<Rightarrow> (Inl e, self) | Inr student \<Rightarrow>
     (case get_course self cc of Inl e \<Rightarrow> (Inl e, self) | Inr course \<Rightarrow>
     (case Student_enroll_course student cc of Inl e \<Rightarrow> (Inl e, self) | Inr student' \<Rightarrow>
      (let self1 = self\<lparr>students := AList.update sid student' (students self)\<rparr>
       in (case Course_add_student course sid of Inl e \<Rightarrow> (Inl e, self1) | Inr course' \<Rightarrow>
            (Inr (), self1\<lparr>courses := AList.update cc course' (courses self1)\<rparr>))))))"

definition add_grade_for_student ::
  "StudentManagementSystem \<Rightarrow> string \<Rightarrow> string \<Rightarrow> string
     \<Rightarrow> (error + unit) \<times> StudentManagementSystem" where
  "add_grade_for_student self sid cc grade =
     (case get_student self sid of Inl e \<Rightarrow> (Inl e, self) | Inr student \<Rightarrow>
      (if cc \<notin> set (Student.courses student)
       then (Inl (ValueError (''Student '' @ sid @ '' is not enrolled in '' @ cc @ ''.'')), self)
       else (case Student_add_grade student cc grade of Inl e \<Rightarrow> (Inl e, self)
             | Inr student' \<Rightarrow>
                 (Inr (), self\<lparr>students := AList.update sid student' (students self)\<rparr>))))"

subsection \<open>Saving and loading\<close>

text \<open>
  A dictionary comprehension \<open>{k: f(v) for k, v in d.items()}\<close> evaluates \<open>f\<close> on
  the items in order and stores each result under its key; the first exception ends
  it and nothing is assigned.
\<close>

fun dict_comp ::
  "('v \<Rightarrow> error + 'w) \<Rightarrow> (string, 'v) dict \<Rightarrow> (string, 'w) dict \<Rightarrow> error + (string, 'w) dict" where
  "dict_comp f [] acc = Inr acc"
| "dict_comp f ((k, v) # items) acc =
     (case f v of Inl e \<Rightarrow> Inl e | Inr w \<Rightarrow> dict_comp f items (AList.update k w acc))"

text \<open>
  \<open>json.dump\<close> converts an integer to text with \<open>int.__repr__\<close>, which CPython
  since 3.11 (and the security releases of the versions before) refuses with a
  \<open>ValueError\<close> when the integer has more than \<open>sys.int_max_str_digits\<close> decimal
  digits, 4300 unless the interpreter was told otherwise. The age of a student is
  the only integer of a document.
\<close>

definition int_max_str_digits :: nat where
  "int_max_str_digits = 4300"

definition int_to_str_ok :: "int \<Rightarrow> bool" where
  "int_to_str_ok a = (\<bar>a\<bar> < 10 ^ int_max_str_digits)"

definition json_dump_ok :: "document \<Rightarrow> bool" where
  "json_dump_ok data =
     list_all (\<lambda>(k, sd). case d_age sd of None \<Rightarrow> True | Some a \<Rightarrow> int_to_str_ok a)
       (get_default (data_students data) [])"

text \<open>
  \<open>save_data\<close> builds the document, opens the file, which empties it, and lets
  \<open>json.dump\<close> write the document piece by piece. When \<open>json.dump\<close> raises, the
  pieces written so far stay in the file, which then does not parse.
\<close>

definition save_data ::
  "filesystem \<Rightarrow> StudentManagementSystem \<Rightarrow> string \<Rightarrow> (error + unit) \<times> filesystem" where
  "save_data fs self filename =
     (case dict_comp (\<lambda>s. Inr (Student_to_dict s)) (students self) [] of Inl e \<Rightarrow> (Inl e, fs)
      | Inr sd \<Rightarrow>
     (case dict_comp (\<lambda>c. Inr (Course_to_dict c)) (courses self) [] of Inl e \<Rightarrow> (Inl e, fs)
      | Inr cd \<Rightarrow>
      (let data = \<lparr>data_students = Some sd, data_courses = Some cd\<rparr>
       in (case open_for_writing fs filename of
             Some e \<Rightarrow> (Inl e, fs)
           | None \<Rightarrow>
               if json_dump_ok data
               then (Inr (), fs\<lparr>files := (files fs)(filename \<mapsto> Document data)\<rparr>)
               else (Inl (ValueError (''Exceeds the limit (4300 digits) for integer string ''
                            @ ''conversion; use sys.set_int_max_str_digits() to increase the limit'')),
                     fs\<lparr>files := (files fs)(filename \<mapsto> Malformed)\<rparr>)))))"

text \<open>
  The repair loop of \<open>load_data\<close>: for each course in order and each student id it
  lists, when the id is a key of the student collection and the student's course
  list lacks the course code, the code is appended to that list. \<open>repair_step\<close> is
  the body of the inner loop, \<open>repair_course\<close> the inner loop, \<open>repair\<close> the outer.
\<close>

definition repair_step ::
  "string \<Rightarrow> string \<Rightarrow> (string, Student) dict \<Rightarrow> (string, Student) dict" where
  "repair_step cc sid sts =
     (case map_of sts sid of
        None \<Rightarrow> sts
      | Some s \<Rightarrow>
          if cc \<notin> set (Student.courses s)
          then AList.update sid (s\<lparr>Student.courses := Student.courses s @ [cc]\<rparr>) sts
          else sts)"

fun repair_course ::
  "string \<Rightarrow> string list \<Rightarrow> (string, Student) dict \<Rightarrow> (string, Student) dict" where
  "repair_course cc [] sts = sts"
| "repair_course cc (sid # sids) sts = repair_course cc sids (repair_step cc sid sts)"

fun repair ::
  "(string, Course) dict \<Rightarrow> (string, Student) dict \<Rightarrow> (string, Student) dict" where
  "repair [] sts = sts"
| "repair ((cc, c) # items) sts = repair items (repair_course cc (Course.students c) sts)"

definition load_data ::
  "filesystem \<Rightarrow> StudentManagementSystem \<Rightarrow> string
     \<Rightarrow> (error + unit) \<times> StudentManagementSystem" where
  "load_data fs self filename =
     (case files fs filename of
        None \<Rightarrow> (Inl FileNotFoundError, self)
      | Some Malformed \<Rightarrow> (Inl JSONDecodeError, self)
      | Some (Document data) \<Rightarrow>
     (let students_d = get_default (data_students data) [];
          courses_d = get_default (data_courses data) []
      in (case dict_comp Student_from_dict students_d [] of Inl e \<Rightarrow> (Inl e, self)
          | Inr sts \<Rightarrow>
         (let self1 = self\<lparr>students := sts\<rparr>
          in (case dict_comp Course_from_dict courses_d [] of Inl e \<Rightarrow> (Inl e, self1)
              | Inr cs \<Rightarrow>
             (let self2 = self1\<lparr>courses := cs\<rparr>
              in (Inr (), self2\<lparr>students := repair (courses self2) (students self2)\<rparr>)))))))"

subsection \<open>Sequences of operations\<close>

text \<open>
  The operations that change the registry or a file, as a caller (such as the menu
  loop, which catches every exception and goes on) issues them one after the other:
  an operation that raises leaves the state it reached, and the next one starts there.
\<close>

datatype command =
    AddStudent string int string string
  | AddCourse string string string
  | Enroll string string
  | AddGrade string string string
  | SaveData string
  | LoadData string

fun exec ::
  "command \<Rightarrow> filesystem \<times> StudentManagementSystem \<Rightarrow> filesystem \<times> StudentManagementSystem" where
  "exec (AddStudent n a ad sid) (fs, sms) = (fs, snd (add_student sms n a ad sid))"
| "exec (AddCourse cn cc ins) (fs, sms) = (fs, snd (add_course sms cn cc ins))"
| "exec (Enroll sid cc) (fs, sms) = (fs, snd (enroll_student_in_course sms sid cc))"
| "exec (AddGrade sid cc g) (fs, sms) = (fs, snd (add_grade_for_student sms sid cc g))"
| "exec (SaveData f) (fs, sms) = (snd (save_data fs sms f), sms)"
| "exec (LoadData f) (fs, sms) = (fs, snd (load_data fs sms f))"

definition run ::
  "command list \<Rightarrow> filesystem \<times> StudentManagementSystem \<Rightarrow> filesystem \<times> StudentManagementSystem" where
  "run cmds st = fold exec cmds st"

fun in_memory_op :: "command \<Rightarrow> bool" where
  "in_memory_op (SaveData f) = False"
| "in_memory_op (LoadData f) = False"
| "in_memory_op c = True"

section \<open>Properties of registry states\<close>

text \<open>Every graded course code of a student is in the student's course list.\<close>

definition grades_within_courses :: "Student \<Rightarrow> bool" where
  "grades_within_courses s = list_all (\<lambda>cc. cc \<in> set (Student.courses s)) (map fst (grades s))"

definition grades_invariant :: "StudentManagementSystem \<Rightarrow> bool" where
  "grades_invariant sms = list_all (\<lambda>(k, s). grades_within_courses s) (students sms)"

text \<open>The same condition on the student records of a file.\<close>

definition dict_grades_within_courses :: "student_dict \<Rightarrow> bool" where
  "dict_grades_within_courses sd =
     list_all (\<lambda>cc. cc \<in> set (get_default (d_courses sd) [])) (map fst (get_default (d_grades sd) []))"

definition content_grades_ok :: "file_content \<Rightarrow> bool" where
  "content_grades_ok c =
     (case c of
        Malformed \<Rightarrow> True
      | Document data \<Rightarrow>
          list_all (\<lambda>(k, sd). dict_grades_within_courses sd) (get_default (data_students data) []))"

definition files_grades_ok :: "filesystem \<Rightarrow> bool" where
  "files_grades_ok fs = (\<forall>f c. files fs f = Some c \<longrightarrow> content_grades_ok c)"

text \<open>Each entity is stored under its own identifier.\<close>

definition key_consistent :: "StudentManagementSystem \<Rightarrow> bool" where
  "key_consistent sms =
     (list_all (\<lambda>(k, s). student_id s = k) (students sms) \<and>
      list_all (\<lambda>(k, c). course_code c = k) (courses sms))"

text \<open>
  \<open>enrolled_if_registered cc sts sid\<close>: when \<open>sid\<close> is a key of the student collection,
  the course list of the student under it has \<open>cc\<close>. \<open>listed_students_enrolled\<close>:
  this holds for every course of the collection, under its key, and every student id
  that the course lists.
\<close>

definition enrolled_if_registered :: "string \<Rightarrow> (string, Student) dict \<Rightarrow> string \<Rightarrow> bool" where
  "enrolled_if_registered cc sts sid =
     (case map_of sts sid of None \<Rightarrow> True | Some s \<Rightarrow> cc \<in> set (Student.courses s))"

definition listed_students_enrolled ::
  "(string, Course) dict \<Rightarrow> (string, Student) dict \<Rightarrow> bool" where
  "listed_students_enrolled cs sts =
     list_all (\<lambda>(cc, c). list_all (enrolled_if_registered cc sts) (Course.students c)) cs"

text \<open>
  \<open>only_courses_appended sts sts'\<close>: the two student collections have the same keys,
  and each student of the second is the student of the first under that key with
  course codes appended to the course list (possibly none).
\<close>

definition only_courses_appended ::
  "(string, Student) dict \<Rightarrow> (string, Student) dict \<Rightarrow> bool" where
  "only_courses_appended sts sts' =
     (map fst sts' = map fst sts \<and>
      (\<forall>sid s. map_of sts sid = Some s \<longrightarrow>
         (\<exists>extra. map_of sts' sid = Some (s\<lparr>Student.courses := Student.courses s @ extra\<rparr>))))"

text \<open>
  \<open>listings cs\<close>: the pairs of a key of the course collection and a student id that
  the course under that key lists. \<open>courses_appended_within L sts sts'\<close>: the two
  student collections have the same keys, and each student of the second is the
  student of the first under that key, \<open>sid\<close>, with course codes appended to the
  course list, each of them once, none of them in the list before, and each a code
  \<open>cc\<close> with \<open>(cc, sid)\<close> in \<open>L\<close>.
\<close>

definition listings :: "(string, Course) dict \<Rightarrow> (string \<times> string) set" where
  "listings cs = {(cc, sid). \<exists>c. (cc, c) \<in> set cs \<and> sid \<in> set (Course.students c)}"

definition courses_appended_within ::
  "(string \<times> string) set \<Rightarrow> (string, Student) dict \<Rightarrow> (string, Student) dict \<Rightarrow> bool" where
  "courses_appended_within L sts sts' =
     (map fst sts' = map fst sts \<and>
      (\<forall>sid s. map_of sts sid = Some s \<longrightarrow>
         (\<exists>extra. map_of sts' sid = Some (s\<lparr>Student.courses := Student.courses s @ extra\<rparr>) \<and>
            distinct extra \<and>
            (\<forall>cc \<in> set extra. cc \<notin> set (Student.courses s) \<and> (cc, sid) \<in> L))))"

section \<open>Example states\<close>

text \<open>
  The scenario of the specification: Alice is added as \<open>S1\<close>, the course \<open>C1\<close> is
  added, Alice is enrolled in it and graded.
\<close>

definition no_files :: filesystem where
  "no_files = \<lparr>files = Map.empty, open_for_writing = Map.empty\<rparr>"

definition scenario :: "command list" where
  "scenario =
     [AddStudent ''Alice'' 20 ''X St'' ''S1'', AddCourse ''Algo'' ''C1'' ''Dr. B'',
      Enroll ''S1'' ''C1'', AddGrade ''S1'' ''C1'' ''A'']"

definition scenario_registry :: StudentManagementSystem where
  "scenario_registry =
     \<lparr>students =
        [(''S1'', \<lparr>name = ''Alice'', age = 20, address = ''X St'', student_id = ''S1'',
                  grades = [(''C1'', ''A'')], courses = [''C1'']\<rparr>)],
      courses =
        [(''C1'', \<lparr>course_name = ''Algo'', course_code = ''C1'', instructor = ''Dr. B'',
                  students = [''S1'']\<rparr>)]\<rparr>"

text \<open>Alice and the course are registered, and Alice is not enrolled yet.\<close>

definition before_enrolment :: StudentManagementSystem where
  "before_enrolment =
     \<lparr>students =
        [(''S1'', \<lparr>name = ''Alice'', age = 20, address = ''X St'', student_id = ''S1'',
                  grades = [], courses = []\<rparr>)],
      courses =
        [(''C1'', \<lparr>course_name = ''Algo'', course_code = ''C1'', instructor = ''Dr. B'',
                  students = []\<rparr>)]\<rparr>"

text \<open>
  A file that lists \<open>S1\<close> in course \<open>C1\<close> and holds no student. Loading it and then
  adding Alice as \<open>S1\<close> gives a registry whose course lists a registered student who
  is not enrolled in it.
\<close>

definition roster_document :: document where
  "roster_document =
     \<lparr>data_students = Some [],
      data_courses = Some
        [(''C1'', \<lparr>d_course_name = Some ''Algo'', d_course_code = Some ''C1'',
                  d_instructor = Some ''Dr. B'', d_students = Some [''S1'']\<rparr>)]\<rparr>"

definition listed_not_enrolled :: StudentManagementSystem where
  "listed_not_enrolled =
     \<lparr>students =
        [(''S1'', \<lparr>name = ''Alice'', age = 20, address = ''X St'', student_id = ''S1'',
                  grades = [], courses = []\<rparr>)],
      courses =
        [(''C1'', \<lparr>course_name = ''Algo'', course_code = ''C1'', instructor = ''Dr. B'',
                  students = [''S1'']\<rparr>)]\<rparr>"

text \<open>A file whose student record is complete and whose course record has no \<open>course_name\<close>.\<close>

definition broken_course_document :: document where
  "broken_course_document =
     \<lparr>data_students = Some
        [(''S2'', \<lparr>d_name = Some ''Bob'', d_age = Some 31, d_address = Some ''Y St'',
                  d_student_id = Some ''S2'', d_grades = Some [], d_courses = Some []\<rparr>)],
      data_courses = Some
        [(''C9'', \<lparr>d_course_name = None, d_course_code = Some ''C9'',
                  d_instructor = Some ''Dr. Z'', d_students = Some []\<rparr>)]\<rparr>"

text \<open>A file whose only student record has no \<open>name\<close>.\<close>

definition anonymous_student_document :: document where
  "anonymous_student_document =
     \<lparr>data_students = Some
        [(''S3'', \<lparr>d_name = None, d_age = Some 40, d_address = Some ''Z St'',
                  d_student_id = Some ''S3'', d_grades = None, d_courses = None\<rparr>)],
      data_courses = None\<rparr>"

text \<open>A file whose student has a grade for \<open>C1\<close> and an empty course list.\<close>

definition graded_not_enrolled_document :: document where
  "graded_not_enrolled_document =
     \<lparr>data_students = Some
        [(''S1'', \<lparr>d_name = Some ''Alice'', d_age = Some 20, d_address = Some ''X St'',
                  d_student_id = Some ''S1'', d_grades = Some [(''C1'', ''A'')],
                  d_courses = Some []\<rparr>)],
      data_courses = Some []\<rparr>"

text \<open>
  A file in which course \<open>C1\<close> lists \<open>S1\<close> while \<open>S1\<close> does not list \<open>C1\<close>, and
  \<open>S1\<close> lists \<open>C2\<close> while \<open>C2\<close> does not list \<open>S1\<close>.
\<close>

definition links_document :: document where
  "links_document =
     \<lparr>data_students = Some
        [(''S1'', \<lparr>d_name = Some ''Alice'', d_age = Some 20, d_address = Some ''X St'',
                  d_student_id = Some ''S1'', d_grades = Some [], d_courses = Some [''C2'']\<rparr>)],
      data_courses = Some
        [(''C1'', \<lparr>d_course_name = Some ''Algo'', d_course_code = Some ''C1'',
                  d_instructor = Some ''Dr. B'', d_students = Some [''S1'']\<rparr>),
         (''C2'', \<lparr>d_course_name = Some ''Logic'', d_course_code = Some ''C2'',
                  d_instructor = Some ''Dr. C'', d_students = Some []\<rparr>)]\<rparr>"

definition links_loaded :: StudentManagementSystem where
  "links_loaded =
     \<lparr>students =
        [(''S1'', \<lparr>name = ''Alice'', age = 20, address = ''X St'', student_id = ''S1'',
                  grades = [], courses = [''C2'', ''C1'']\<rparr>)],
      courses =
        [(''C1'', \<lparr>course_name = ''Algo'', course_code = ''C1'', instructor = ''Dr. B'',
                  students = [''S1'']\<rparr>),
         (''C2'', \<lparr>course_name = ''Logic'', course_code = ''C2'', instructor = ''Dr. C'',
                  students = []\<rparr>)]\<rparr>"

text \<open>
  A file whose course is stored under the key \<open>K1\<close>, has the course code \<open>CX\<close>
  and lists \<open>S1\<close>, who lists no course.
\<close>

definition mismatch_document :: document where
  "mismatch_document =
     \<lparr>data_students = Some
        [(''S1'', \<lparr>d_name = Some ''Alice'', d_age = Some 20, d_address = Some ''X St'',
                  d_student_id = Some ''S1'', d_grades = Some [], d_courses = Some []\<rparr>)],
      data_courses = Some
        [(''K1'', \<lparr>d_course_name = Some ''Algo'', d_course_code = Some ''CX'',
                  d_instructor = Some ''Dr. B'', d_students = Some [''S1'']\<rparr>)]\<rparr>"

definition example_files :: filesystem where
  "example_files =
     \<lparr>files = [''roster.json'' \<mapsto> Document roster_document,
               ''broken.json'' \<mapsto> Document broken_course_document,
               ''anonymous.json'' \<mapsto> Document anonymous_student_document,
               ''grades.json'' \<mapsto> Document graded_not_enrolled_document,
               ''links.json'' \<mapsto> Document links_document,
               ''mismatch.json'' \<mapsto> Document mismatch_document,
               ''garbage.json'' \<mapsto> Malformed],
      open_for_writing = Map.empty\<rparr>"

definition links_only :: filesystem where
  "links_only =
     \<lparr>files = [''links.json'' \<mapsto> Document links_document], open_for_writing = Map.empty\<rparr>"


section \<open>Dictionaries\<close>

lemma get_student_update:
  "get_student (sms\<lparr>students := AList.update sid s (students sms)\<rparr>) sid = Inr s"
  by (simp add: get_student_def update_conv')

lemma scenario_run: "snd (run scenario (no_files, StudentManagementSystem_init)) = scenario_registry"
  by (simp add: run_def scenario_def scenario_registry_def StudentManagementSystem_init_def
      add_student_def add_course_def enroll_student_in_course_def add_grade_for_student_def
      get_student_def get_course_def Student_enroll_course_def Course_add_student_def
      Student_add_grade_def Student_init_def Course_init_def keys_def)

section \<open>Identifiers and keys\<close>

lemma list_all_update:
  "list_all P al \<Longrightarrow> P (k, v) \<Longrightarrow> list_all P (AList.update k v al)"
  by (induction al) auto

lemma list_all_map_of:
  "list_all P al \<Longrightarrow> map_of al k = Some v \<Longrightarrow> P (k, v)"
  by (auto simp: list_all_iff dest: map_of_SomeD)

lemma key_consistent_add_student:
  "key_consistent sms \<Longrightarrow> key_consistent (snd (add_student sms n a ad sid))"
  by (simp add: add_student_def key_consistent_def list_all_update Student_init_def)

lemma key_consistent_add_course:
  "key_consistent sms \<Longrightarrow> key_consistent (snd (add_course sms cn cc ins))"
  by (simp add: add_course_def key_consistent_def list_all_update Course_init_def)

lemma key_consistent_enroll:
  assumes "key_consistent sms"
  shows "key_consistent (snd (enroll_student_in_course sms sid cc))"
proof -
  have s: "student_id st = sid" if "map_of (students sms) sid = Some st" for st
    using assms that list_all_map_of [of "\<lambda>(k, s). student_id s = k" "students sms" sid st]
    by (simp add: key_consistent_def)
  have c: "course_code co = cc" if "map_of (courses sms) cc = Some co" for co
    using assms that list_all_map_of [of "\<lambda>(k, c). course_code c = k" "courses sms" cc co]
    by (simp add: key_consistent_def)
  show ?thesis
    using assms s c
    by (auto simp: enroll_student_in_course_def get_student_def get_course_def
        Student_enroll_course_def Course_add_student_def key_consistent_def
        intro!: list_all_update split: option.splits)
qed

lemma key_consistent_add_grade:
  assumes "key_consistent sms"
  shows "key_consistent (snd (add_grade_for_student sms sid cc g))"
proof -
  have s: "student_id st = sid" if "map_of (students sms) sid = Some st" for st
    using assms that list_all_map_of [of "\<lambda>(k, s). student_id s = k" "students sms" sid st]
    by (simp add: key_consistent_def)
  show ?thesis
    using assms s
    by (auto simp: add_grade_for_student_def get_student_def Student_add_grade_def
        key_consistent_def intro!: list_all_update split: option.splits)
qed

lemma key_consistent_exec:
  "in_memory_op c \<Longrightarrow> key_consistent (snd st) \<Longrightarrow> key_consistent (snd (exec c st))"
  by (cases c; cases st)
    (simp_all add: key_consistent_add_student key_consistent_add_course
      key_consistent_enroll key_consistent_add_grade)

lemma key_consistent_fold:
  "list_all in_memory_op cmds \<Longrightarrow> key_consistent (snd st) \<Longrightarrow>
     key_consistent (snd (fold exec cmds st))"
  by (induction cmds arbitrary: st) (simp_all add: key_consistent_exec)

section \<open>Saving, loading and the repair loop\<close>

lemma update_fresh: "k \<notin> fst ` set al \<Longrightarrow> AList.update k v al = al @ [(k, v)]"
  by (induction al) auto

lemma dict_comp_distinct:
  assumes "distinct (map fst xs)"
    and "fst ` set xs \<inter> fst ` set acc = {}"
    and "\<forall>(k, v) \<in> set xs. f (h v) = Inr (g v)"
  shows "dict_comp f (map (\<lambda>(k, v). (k, h v)) xs) acc = Inr (acc @ map (\<lambda>(k, v). (k, g v)) xs)"
  using assms
proof (induction xs arbitrary: acc)
  case Nil
  then show ?case by simp
next
  case (Cons x xs)
  obtain k v where x: "x = (k, v)" by (cases x)
  have fresh: "k \<notin> fst ` set acc"
    using Cons.prems(2) x by auto
  have fv: "f (h v) = Inr (g v)"
    using Cons.prems(3) x by simp
  have d: "distinct (map fst xs)" and knot: "k \<notin> fst ` set xs"
    using Cons.prems(1) x by auto
  have disj: "fst ` set xs \<inter> fst ` set (acc @ [(k, g v)]) = {}"
    using Cons.prems(2) knot x by auto
  have rest: "\<forall>(k, v) \<in> set xs. f (h v) = Inr (g v)"
    using Cons.prems(3) by simp
  show ?case
    using Cons.IH [OF d disj rest] by (simp add: x fv update_fresh [OF fresh])
qed

lemma dict_comp_to_dict:
  assumes "distinct (map fst xs)"
  shows "dict_comp (\<lambda>v. Inr (enc v)) xs [] = Inr (map (\<lambda>(k, v). (k, enc v)) xs)"
proof -
  have "dict_comp (\<lambda>v. Inr (enc v)) (map (\<lambda>(k, v). (k, v)) xs) []
      = Inr ([] @ map (\<lambda>(k, v). (k, enc v)) xs)"
    by (rule dict_comp_distinct [OF assms]) simp_all
  then show ?thesis by simp
qed

lemma dict_comp_from_dict:
  assumes "distinct (map fst xs)" and "\<And>v. dec (enc v) = Inr v"
  shows "dict_comp dec (map (\<lambda>(k, v). (k, enc v)) xs) [] = Inr xs"
proof -
  have "dict_comp dec (map (\<lambda>(k, v). (k, enc v)) xs) [] = Inr ([] @ map (\<lambda>(k, v). (k, v)) xs)"
    by (rule dict_comp_distinct [OF assms(1)]) (simp_all add: assms(2))
  then show ?thesis by simp
qed

lemma map_fst_update_present:
  "map_of al k = Some v0 \<Longrightarrow> map fst (AList.update k v al) = map fst al"
  by (induction al) (auto split: if_splits)

lemma only_courses_appended_refl: "only_courses_appended sts sts"
proof -
  have "\<exists>extra. s = s\<lparr>Student.courses := Student.courses s @ extra\<rparr>" for s :: Student
    by (rule exI [of _ "[]"]) simp
  then show ?thesis
    by (simp add: only_courses_appended_def)
qed

lemma only_courses_appendedD:
  "only_courses_appended a b \<Longrightarrow> map_of a sid = Some s \<Longrightarrow>
     \<exists>extra. map_of b sid = Some (s\<lparr>Student.courses := Student.courses s @ extra\<rparr>)"
  by (simp add: only_courses_appended_def)

lemma only_courses_appended_trans:
  assumes "only_courses_appended a b" and "only_courses_appended b c"
  shows "only_courses_appended a c"
proof -
  have keys: "map fst c = map fst a"
    using assms by (simp add: only_courses_appended_def)
  have "\<exists>extra. map_of c sid = Some (s\<lparr>Student.courses := Student.courses s @ extra\<rparr>)"
    if h: "map_of a sid = Some s" for sid s
  proof -
    obtain e1 where b: "map_of b sid = Some (s\<lparr>Student.courses := Student.courses s @ e1\<rparr>)"
      using only_courses_appendedD [OF assms(1) h] by blast
    obtain e2 where "map_of c sid =
        Some (s\<lparr>Student.courses := Student.courses s @ e1\<rparr>
               \<lparr>Student.courses := Student.courses (s\<lparr>Student.courses := Student.courses s @ e1\<rparr>) @ e2\<rparr>)"
      using only_courses_appendedD [OF assms(2) b] by blast
    then have "map_of c sid = Some (s\<lparr>Student.courses := Student.courses s @ (e1 @ e2)\<rparr>)"
      by simp
    then show ?thesis by blast
  qed
  with keys show ?thesis
    by (simp add: only_courses_appended_def)
qed

lemma only_courses_appended_update:
  assumes "map_of sts sid = Some s"
  shows "only_courses_appended sts
           (AList.update sid (s\<lparr>Student.courses := Student.courses s @ [cc]\<rparr>) sts)"
proof -
  have "\<exists>extra. ((map_of sts)(sid \<mapsto> s\<lparr>Student.courses := Student.courses s @ [cc]\<rparr>)) k
          = Some (t\<lparr>Student.courses := Student.courses t @ extra\<rparr>)"
    if "map_of sts k = Some t" for k t
  proof (cases "k = sid")
    case True
    then show ?thesis using assms that by auto
  next
    case False
    have "t = t\<lparr>Student.courses := Student.courses t @ []\<rparr>" by simp
    then show ?thesis using False that by (metis fun_upd_other)
  qed
  then show ?thesis
    using assms by (simp add: only_courses_appended_def map_fst_update_present update_conv')
qed

lemma repair_step_appended: "only_courses_appended sts (repair_step cc sid sts)"
  by (simp add: repair_step_def only_courses_appended_refl only_courses_appended_update
      split: option.splits)

lemma repair_course_appended: "only_courses_appended sts (repair_course cc sids sts)"
proof (induction sids arbitrary: sts)
  case Nil
  show ?case by (simp add: only_courses_appended_refl)
next
  case (Cons sid sids)
  show ?case
    unfolding repair_course.simps
    by (rule only_courses_appended_trans [OF repair_step_appended Cons.IH])
qed

lemma repair_appended: "only_courses_appended sts (repair cs sts)"
proof (induction cs arbitrary: sts)
  case Nil
  show ?case by (simp add: only_courses_appended_refl)
next
  case (Cons x cs)
  obtain cc c where x: "x = (cc, c)" by (cases x)
  show ?case
    unfolding x repair.simps
    by (rule only_courses_appended_trans [OF repair_course_appended Cons.IH])
qed

lemma courses_appended_within_refl: "courses_appended_within L sts sts"
proof -
  have "\<exists>extra. s = s\<lparr>Student.courses := Student.courses s @ extra\<rparr> \<and> distinct extra \<and>
          (\<forall>cc \<in> set extra. cc \<notin> set (Student.courses s) \<and> (cc, sid) \<in> L)"
    for s :: Student and sid
    by (rule exI [of _ "[]"]) simp
  then show ?thesis
    by (simp add: courses_appended_within_def)
qed

lemma courses_appended_withinD:
  "courses_appended_within L a b \<Longrightarrow> map_of a sid = Some s \<Longrightarrow>
     \<exists>extra. map_of b sid = Some (s\<lparr>Student.courses := Student.courses s @ extra\<rparr>) \<and>
       distinct extra \<and> (\<forall>cc \<in> set extra. cc \<notin> set (Student.courses s) \<and> (cc, sid) \<in> L)"
  by (simp add: courses_appended_within_def)

lemma courses_appended_within_mono:
  assumes "courses_appended_within L a b" and "L \<subseteq> M"
  shows "courses_appended_within M a b"
proof -
  have "\<exists>extra. map_of b sid = Some (s\<lparr>Student.courses := Student.courses s @ extra\<rparr>) \<and>
          distinct extra \<and> (\<forall>cc \<in> set extra. cc \<notin> set (Student.courses s) \<and> (cc, sid) \<in> M)"
    if h: "map_of a sid = Some s" for sid s
    using courses_appended_withinD [OF assms(1) h] assms(2) by blast
  moreover have "map fst b = map fst a"
    using assms(1) by (simp add: courses_appended_within_def)
  ultimately show ?thesis
    by (simp add: courses_appended_within_def)
qed

lemma courses_appended_within_trans:
  assumes "courses_appended_within L a b" and "courses_appended_within L b c"
  shows "courses_appended_within L a c"
proof -
  have keys: "map fst c = map fst a"
    using assms by (simp add: courses_appended_within_def)
  have "\<exists>extra. map_of c sid = Some (s\<lparr>Student.courses := Student.courses s @ extra\<rparr>) \<and>
          distinct extra \<and> (\<forall>cc \<in> set extra. cc \<notin> set (Student.courses s) \<and> (cc, sid) \<in> L)"
    if h: "map_of a sid = Some s" for sid s
  proof -
    let ?s1 = "\<lambda>e. s\<lparr>Student.courses := Student.courses s @ e\<rparr>"
    obtain e1 where b: "map_of b sid = Some (?s1 e1)" and d1: "distinct e1"
      and in1: "\<forall>cc \<in> set e1. cc \<notin> set (Student.courses s) \<and> (cc, sid) \<in> L"
      using courses_appended_withinD [OF assms(1) h] by blast
    obtain e2 where c: "map_of c sid =
        Some ((?s1 e1)\<lparr>Student.courses := Student.courses (?s1 e1) @ e2\<rparr>)"
      and d2: "distinct e2"
      and in2: "\<forall>cc \<in> set e2. cc \<notin> set (Student.courses (?s1 e1)) \<and> (cc, sid) \<in> L"
      using courses_appended_withinD [OF assms(2) b] by blast
    have "map_of c sid = Some (?s1 (e1 @ e2))"
      using c by simp
    moreover have "distinct (e1 @ e2)"
      using d1 d2 in2 by auto
    moreover have "\<forall>cc \<in> set (e1 @ e2). cc \<notin> set (Student.courses s) \<and> (cc, sid) \<in> L"
      using in1 in2 by auto
    ultimately show ?thesis by blast
  qed
  with keys show ?thesis
    by (simp add: courses_appended_within_def)
qed

lemma courses_appended_within_update:
  assumes "map_of sts sid = Some s" and "cc \<notin> set (Student.courses s)"
  shows "courses_appended_within {(cc, sid)} sts
           (AList.update sid (s\<lparr>Student.courses := Student.courses s @ [cc]\<rparr>) sts)"
proof -
  let ?m = "(map_of sts)(sid \<mapsto> s\<lparr>Student.courses := Student.courses s @ [cc]\<rparr>)"
  have "\<exists>extra. ?m k = Some (t\<lparr>Student.courses := Student.courses t @ extra\<rparr>) \<and>
          distinct extra \<and>
          (\<forall>c' \<in> set extra. c' \<notin> set (Student.courses t) \<and> (c', k) \<in> {(cc, sid)})"
    if h: "map_of sts k = Some t" for k t
  proof (cases "k = sid")
    case True
    then have "t = s" using assms(1) h by simp
    then show ?thesis
      using True assms(2) by (intro exI [of _ "[cc]"]) simp
  next
    case False
    then show ?thesis
      using h by (intro exI [of _ "[]"]) simp
  qed
  then show ?thesis
    using assms(1) by (simp add: courses_appended_within_def map_fst_update_present update_conv')
qed

lemma repair_step_within: "courses_appended_within {(cc, sid)} sts (repair_step cc sid sts)"
  by (simp add: repair_step_def courses_appended_within_refl courses_appended_within_update
      split: option.splits)

lemma repair_course_within:
  "courses_appended_within ({cc} \<times> set sids) sts (repair_course cc sids sts)"
proof (induction sids arbitrary: sts)
  case Nil
  show ?case by (simp add: courses_appended_within_refl)
next
  case (Cons sid sids)
  have one: "courses_appended_within ({cc} \<times> set (sid # sids)) sts (repair_step cc sid sts)"
    by (rule courses_appended_within_mono [OF repair_step_within]) simp
  have rest: "courses_appended_within ({cc} \<times> set (sid # sids)) (repair_step cc sid sts)
      (repair_course cc sids (repair_step cc sid sts))"
    by (rule courses_appended_within_mono [OF Cons.IH]) auto
  show ?case
    unfolding repair_course.simps
    by (rule courses_appended_within_trans [OF one rest])
qed

lemma repair_within: "courses_appended_within (listings cs) sts (repair cs sts)"
proof (induction cs arbitrary: sts)
  case Nil
  show ?case by (simp add: courses_appended_within_refl)
next
  case (Cons x cs)
  obtain cc c where x: "x = (cc, c)" by (cases x)
  have one: "courses_appended_within (listings (x # cs)) sts
      (repair_course cc (Course.students c) sts)"
    by (rule courses_appended_within_mono [OF repair_course_within]) (auto simp: listings_def x)
  have rest: "courses_appended_within (listings (x # cs)) (repair_course cc (Course.students c) sts)
      (repair cs (repair_course cc (Course.students c) sts))"
    by (rule courses_appended_within_mono [OF Cons.IH]) (auto simp: listings_def)
  show ?case
    unfolding x repair.simps
    using courses_appended_within_trans [OF one rest] by (simp add: x)
qed

lemma enrolled_if_registered_appended:
  assumes "enrolled_if_registered cc a sid" and "only_courses_appended a b"
  shows "enrolled_if_registered cc b sid"
proof (cases "map_of a sid")
  case None
  then have "sid \<notin> set (map fst a)"
    by (simp add: map_of_eq_None_iff)
  then have "sid \<notin> set (map fst b)"
    using assms(2) by (simp add: only_courses_appended_def)
  then have "map_of b sid = None"
    by (simp add: map_of_eq_None_iff)
  then show ?thesis
    by (simp add: enrolled_if_registered_def)
next
  case (Some s)
  then obtain extra where "map_of b sid = Some (s\<lparr>Student.courses := Student.courses s @ extra\<rparr>)"
    using only_courses_appendedD [OF assms(2)] by blast
  then show ?thesis
    using assms(1) Some by (simp add: enrolled_if_registered_def)
qed

lemma repair_step_enrolls: "enrolled_if_registered cc (repair_step cc sid sts) sid"
  by (simp add: repair_step_def enrolled_if_registered_def update_conv' split: option.splits)

lemma repair_course_enrolls:
  "sid \<in> set sids \<Longrightarrow> enrolled_if_registered cc (repair_course cc sids sts) sid"
proof (induction sids arbitrary: sts)
  case Nil
  then show ?case by simp
next
  case (Cons x sids)
  show ?case
  proof (cases "sid = x")
    case True
    have "enrolled_if_registered cc (repair_course cc sids (repair_step cc sid sts)) sid"
      by (rule enrolled_if_registered_appended [OF repair_step_enrolls repair_course_appended])
    then show ?thesis using True by simp
  next
    case False
    then have "sid \<in> set sids" using Cons.prems by simp
    then show ?thesis using Cons.IH by simp
  qed
qed

lemma repair_enrolls:
  "(cc, c) \<in> set cs \<Longrightarrow> sid \<in> set (Course.students c) \<Longrightarrow>
     enrolled_if_registered cc (repair cs sts) sid"
proof (induction cs arbitrary: sts)
  case Nil
  then show ?case by simp
next
  case (Cons x cs)
  obtain cc' c' where x: "x = (cc', c')" by (cases x)
  show ?case
  proof (cases "(cc, c) = x")
    case True
    then have eq: "cc' = cc" "c' = c" using x by simp_all
    have "enrolled_if_registered cc (repair_course cc (Course.students c) sts) sid"
      by (rule repair_course_enrolls [OF Cons.prems(2)])
    then have "enrolled_if_registered cc (repair cs (repair_course cc (Course.students c) sts)) sid"
      by (rule enrolled_if_registered_appended [OF _ repair_appended])
    then show ?thesis by (simp add: x eq)
  next
    case False
    then have "(cc, c) \<in> set cs" using Cons.prems(1) by simp
    then show ?thesis using Cons.IH Cons.prems(2) by (simp add: x)
  qed
qed

lemma repair_step_id: "enrolled_if_registered cc sts sid \<Longrightarrow> repair_step cc sid sts = sts"
  by (simp add: repair_step_def enrolled_if_registered_def split: option.splits)

lemma repair_course_id:
  "list_all (enrolled_if_registered cc sts) sids \<Longrightarrow> repair_course cc sids sts = sts"
  by (induction sids) (simp_all add: repair_step_id)

lemma repair_id: "listed_students_enrolled cs sts \<Longrightarrow> repair cs sts = sts"
  unfolding listed_students_enrolled_def
  by (induction cs) (auto simp: repair_course_id)

lemma Student_from_to_dict: "Student_from_dict (Student_to_dict s) = Inr s"
  by (simp add: Student_from_dict_def Student_to_dict_def Person_to_dict_def getitem_def
      get_default_def Student_init_def)

lemma Course_from_to_dict: "Course_from_dict (Course_to_dict c) = Inr c"
  by (simp add: Course_from_dict_def Course_to_dict_def getitem_def get_default_def
      Course_init_def)

lemma json_dump_ok_to_dict:
  assumes "list_all (\<lambda>(k, s). int_to_str_ok (age s)) sts"
  shows "json_dump_ok \<lparr>data_students = Some (map (\<lambda>(k, s). (k, Student_to_dict s)) sts),
                       data_courses = cd\<rparr>"
  using assms
  by (induction sts)
    (auto simp: json_dump_ok_def get_default_def Student_to_dict_def Person_to_dict_def)

lemma save_data_writes:
  assumes "distinct (map fst (students sms))" and "distinct (map fst (courses sms))"
    and "open_for_writing fs f = None"
    and "list_all (\<lambda>(k, s). int_to_str_ok (age s)) (students sms)"
  shows "save_data fs sms f =
    (Inr (), fs\<lparr>files := (files fs)(f \<mapsto> Document
       \<lparr>data_students = Some (map (\<lambda>(k, s). (k, Student_to_dict s)) (students sms)),
        data_courses = Some (map (\<lambda>(k, c). (k, Course_to_dict c)) (courses sms))\<rparr>)\<rparr>)"
  using assms(3) json_dump_ok_to_dict [OF assms(4)]
  by (simp add: save_data_def dict_comp_to_dict [OF assms(1)] dict_comp_to_dict [OF assms(2)])

lemma int_to_str_ok_small: "\<bar>a\<bar> < 100 \<Longrightarrow> int_to_str_ok a"
proof -
  assume "\<bar>a\<bar> < 100"
  moreover have "(10::int) ^ 2 \<le> 10 ^ int_max_str_digits"
    by (rule power_increasing) (simp_all add: int_max_str_digits_def)
  ultimately show ?thesis
    by (simp add: int_to_str_ok_def)
qed

lemma load_data_reads:
  assumes "files fs f = Some (Document data)"
    and "dict_comp Student_from_dict (get_default (data_students data) []) [] = Inr sts0"
    and "dict_comp Course_from_dict (get_default (data_courses data) []) [] = Inr cs0"
  shows "load_data fs sms f = (Inr (), sms\<lparr>students := repair cs0 sts0, courses := cs0\<rparr>)"
  using assms by (simp add: load_data_def)

lemma load_data_success:
  assumes "load_data fs sms f = (Inr (), sms')"
  shows "\<exists>data sts0 cs0. files fs f = Some (Document data) \<and>
     dict_comp Student_from_dict (get_default (data_students data) []) [] = Inr sts0 \<and>
     dict_comp Course_from_dict (get_default (data_courses data) []) [] = Inr cs0 \<and>
     sms' = sms\<lparr>students := repair cs0 sts0, courses := cs0\<rparr>"
  using assms
  by (auto simp: load_data_def Let_def split: option.splits file_content.splits sum.splits)

lemmas eval_defs = load_data_def save_data_def add_student_def add_course_def
  enroll_student_in_course_def add_grade_for_student_def get_student_def get_course_def
  Student_from_dict_def Course_from_dict_def Student_to_dict_def Course_to_dict_def
  Person_to_dict_def Student_init_def Course_init_def Student_enroll_course_def
  Course_add_student_def Student_add_grade_def getitem_def get_default_def repair_step_def
  StudentManagementSystem_init_def keys_def run_def

lemma load_roster_then_add:
  "snd (run [LoadData ''roster.json'', AddStudent ''Alice'' 20 ''X St'' ''S1'']
         (example_files, StudentManagementSystem_init)) = listed_not_enrolled"
  by (simp add: eval_defs example_files_def roster_document_def listed_not_enrolled_def)

lemma load_links:
  "load_data links_only StudentManagementSystem_init ''links.json'' = (Inr (), links_loaded)"
  by (simp add: eval_defs links_only_def links_document_def links_loaded_def)

section \<open>Grades and course lists\<close>

lemma dict_comp_list_all:
  assumes "list_all P acc"
    and "\<forall>(k, v) \<in> set xs. \<forall>w. f v = Inr w \<longrightarrow> P (k, w)"
    and "dict_comp f xs acc = Inr res"
  shows "list_all P res"
  using assms
proof (induction xs arbitrary: acc)
  case Nil
  then show ?case by simp
next
  case (Cons x xs)
  obtain k v where x: "x = (k, v)" by (cases x)
  from Cons.prems(3) obtain w where w: "f v = Inr w"
    and rest: "dict_comp f xs (AList.update k w acc) = Inr res"
    by (auto simp: x split: sum.splits)
  have "P (k, w)" using Cons.prems(2) w x by auto
  then have "list_all P (AList.update k w acc)"
    using Cons.prems(1) by (simp add: list_all_update)
  moreover have "\<forall>(k, v) \<in> set xs. \<forall>w. f v = Inr w \<longrightarrow> P (k, w)"
    using Cons.prems(2) by simp
  ultimately show ?case
    using Cons.IH rest by blast
qed

lemma grades_within_courses_enroll:
  "grades_within_courses s \<Longrightarrow>
     grades_within_courses (s\<lparr>Student.courses := Student.courses s @ [cc]\<rparr>)"
  by (simp add: grades_within_courses_def list_all_iff)

lemma grades_within_courses_grade:
  "grades_within_courses s \<Longrightarrow> cc \<in> set (Student.courses s) \<Longrightarrow>
     grades_within_courses (s\<lparr>grades := AList.update cc g (grades s)\<rparr>)"
  by (auto simp: grades_within_courses_def list_all_iff dom_update)

lemma grades_invariant_add_student:
  "grades_invariant sms \<Longrightarrow> grades_invariant (snd (add_student sms n a ad sid))"
  by (simp add: add_student_def grades_invariant_def list_all_update Student_init_def
      grades_within_courses_def)

lemma grades_invariant_add_course:
  "grades_invariant sms \<Longrightarrow> grades_invariant (snd (add_course sms cn cc ins))"
  by (simp add: add_course_def grades_invariant_def)

lemma grades_invariant_enroll:
  assumes "grades_invariant sms"
  shows "grades_invariant (snd (enroll_student_in_course sms sid cc))"
proof -
  have s: "grades_within_courses st" if "map_of (students sms) sid = Some st" for st
    using assms that list_all_map_of [of "\<lambda>(k, s). grades_within_courses s" "students sms" sid st]
    by (simp add: grades_invariant_def)
  show ?thesis
    using assms s
    by (auto simp: enroll_student_in_course_def get_student_def get_course_def
        Student_enroll_course_def Course_add_student_def grades_invariant_def
        grades_within_courses_enroll
        intro!: list_all_update split: option.splits)
qed

lemma grades_invariant_add_grade:
  assumes "grades_invariant sms"
  shows "grades_invariant (snd (add_grade_for_student sms sid cc g))"
proof -
  have s: "grades_within_courses st" if "map_of (students sms) sid = Some st" for st
    using assms that list_all_map_of [of "\<lambda>(k, s). grades_within_courses s" "students sms" sid st]
    by (simp add: grades_invariant_def)
  show ?thesis
    using assms s
    by (auto simp: add_grade_for_student_def get_student_def Student_add_grade_def
        grades_invariant_def grades_within_courses_grade
        intro!: list_all_update split: option.splits)
qed

lemma Student_from_dict_grades:
  "Student_from_dict sd = Inr s \<Longrightarrow> dict_grades_within_courses sd \<Longrightarrow> grades_within_courses s"
  by (auto simp: Student_from_dict_def getitem_def Student_init_def dict_grades_within_courses_def
      grades_within_courses_def split: option.splits)

lemma Student_to_dict_grades:
  "grades_within_courses s \<Longrightarrow> dict_grades_within_courses (Student_to_dict s)"
  by (simp add: Student_to_dict_def Let_def dict_grades_within_courses_def
      grades_within_courses_def get_default_def)

lemma repair_step_grades:
  "list_all (\<lambda>(k, s). grades_within_courses s) sts \<Longrightarrow>
     list_all (\<lambda>(k, s). grades_within_courses s) (repair_step cc sid sts)"
  using list_all_map_of [of "\<lambda>(k, s). grades_within_courses s" sts sid]
  by (auto simp: repair_step_def grades_within_courses_enroll intro!: list_all_update
      split: option.splits)

lemma repair_course_grades:
  "list_all (\<lambda>(k, s). grades_within_courses s) sts \<Longrightarrow>
     list_all (\<lambda>(k, s). grades_within_courses s) (repair_course cc sids sts)"
  by (induction sids arbitrary: sts) (simp_all add: repair_step_grades)

lemma repair_grades:
  "list_all (\<lambda>(k, s). grades_within_courses s) sts \<Longrightarrow>
     list_all (\<lambda>(k, s). grades_within_courses s) (repair cs sts)"
  by (induction cs arbitrary: sts) (auto simp: repair_course_grades)

lemma grades_invariant_load_data:
  assumes "grades_invariant sms" and "files_grades_ok fs"
  shows "grades_invariant (snd (load_data fs sms f))"
proof (cases "files fs f")
  case None
  then show ?thesis using assms(1) by (simp add: load_data_def)
next
  case (Some c)
  show ?thesis
  proof (cases c)
    case Malformed
    then show ?thesis using assms(1) Some by (simp add: load_data_def)
  next
    case (Document data)
    have "content_grades_ok c"
      using assms(2) Some by (simp add: files_grades_ok_def)
    then have ok: "list_all (\<lambda>(k, sd). dict_grades_within_courses sd)
        (get_default (data_students data) [])"
      by (simp add: Document content_grades_ok_def)
    have decoded: "list_all (\<lambda>(k, s). grades_within_courses s) sts"
      if "dict_comp Student_from_dict (get_default (data_students data) []) [] = Inr sts" for sts
    proof (rule dict_comp_list_all [OF _ _ that])
      show "list_all (\<lambda>(k, s). grades_within_courses s) []" by simp
      show "\<forall>(k, v) \<in> set (get_default (data_students data) []).
              \<forall>w. Student_from_dict v = Inr w \<longrightarrow> (case (k, w) of (k, s) \<Rightarrow> grades_within_courses s)"
        using ok by (auto simp: list_all_iff Student_from_dict_grades)
    qed
    show ?thesis
      using assms(1) Some Document decoded
      by (auto simp: load_data_def Let_def grades_invariant_def repair_grades split: sum.splits)
  qed
qed

lemma files_grades_ok_save_data:
  assumes "grades_invariant sms" and "files_grades_ok fs"
  shows "files_grades_ok (snd (save_data fs sms f))"
proof -
  have encoded: "list_all (\<lambda>(k, sd). dict_grades_within_courses sd) sd"
    if "dict_comp (\<lambda>s. Inr (Student_to_dict s)) (students sms) [] = Inr sd" for sd
  proof (rule dict_comp_list_all [OF _ _ that])
    show "list_all (\<lambda>(k, sd). dict_grades_within_courses sd) []" by simp
    show "\<forall>(k, v) \<in> set (students sms). \<forall>w. Inr (Student_to_dict v) = Inr w \<longrightarrow>
            (case (k, w) of (k, sd) \<Rightarrow> dict_grades_within_courses sd)"
      using assms(1) by (auto simp: grades_invariant_def list_all_iff Student_to_dict_grades)
  qed
  show ?thesis
    using assms(2) encoded
    by (auto simp: save_data_def Let_def files_grades_ok_def content_grades_ok_def get_default_def
        split: sum.splits option.splits if_splits)
qed

lemma grades_invariant_exec:
  assumes "files_grades_ok (fst st)" and "grades_invariant (snd st)"
  shows "files_grades_ok (fst (exec c st)) \<and> grades_invariant (snd (exec c st))"
  using assms
  by (cases c; cases st)
    (simp_all add: grades_invariant_add_student grades_invariant_add_course
      grades_invariant_enroll grades_invariant_add_grade grades_invariant_load_data
      files_grades_ok_save_data)

lemma grades_invariant_fold:
  "files_grades_ok (fst st) \<Longrightarrow> grades_invariant (snd st) \<Longrightarrow>
     files_grades_ok (fst (fold exec cmds st)) \<and> grades_invariant (snd (fold exec cmds st))"
  by (induction cmds arbitrary: st) (simp_all add: grades_invariant_exec)


section \<open>Adding and looking up\<close>

text \<open>
  C1. When the student id is not yet a key of the student collection, \<open>add_student\<close>
  returns normally and \<open>get_student\<close> on the resulting registry returns a student
  with exactly the given name, age, address and id, an empty course list and an empty
  grade dictionary.
\<close>

theorem add_student_then_get_student:
  assumes "sid \<notin> keys (students sms)"
  shows "fst (add_student sms n a ad sid) = Inr () \<and>
         get_student (snd (add_student sms n a ad sid)) sid =
           Inr \<lparr>name = n, age = a, address = ad, student_id = sid, grades = [], courses = []\<rparr>"
  using assms by (simp add: add_student_def get_student_update Student_init_def)

theorem add_student_then_get_student_witness:
  "''S1'' \<notin> keys (students StudentManagementSystem_init) \<and>
   fst (add_student StudentManagementSystem_init ''Alice'' 20 ''X St'' ''S1'') = Inr () \<and>
   get_student (snd (add_student StudentManagementSystem_init ''Alice'' 20 ''X St'' ''S1'')) ''S1'' =
     Inr \<lparr>name = ''Alice'', age = 20, address = ''X St'', student_id = ''S1'',
          grades = [], courses = []\<rparr>"
proof -
  have h: "''S1'' \<notin> keys (students StudentManagementSystem_init)"
    by (simp add: keys_def StudentManagementSystem_init_def)
  show ?thesis
    using h add_student_then_get_student [OF h, of "''Alice''" 20 "''X St''"] by simp
qed

text \<open>
  C2. \<open>add_student\<close> with an id that is already a key of the student collection, and
  \<open>add_course\<close> with a code that is already a key of the course collection, raise
  the "already exists" \<open>ValueError\<close> and leave the whole registry, hence the stored
  entity and both collections, as it was.
\<close>

theorem duplicate_key_rejected:
  "(sid \<in> keys (students sms) \<longrightarrow>
      add_student sms n a ad sid =
        (Inl (ValueError (''Student ID '' @ sid @ '' already exists.'')), sms)) \<and>
   (cc \<in> keys (courses sms) \<longrightarrow>
      add_course sms cn cc ins =
        (Inl (ValueError (''Course code '' @ cc @ '' already exists.'')), sms))"
  by (simp add: add_student_def add_course_def)

theorem duplicate_key_rejected_witness:
  "''S1'' \<in> keys (students scenario_registry) \<and>
   ''C1'' \<in> keys (courses scenario_registry) \<and>
   add_student scenario_registry ''Bob'' 31 ''Y St'' ''S1'' =
     (Inl (ValueError ''Student ID S1 already exists.''), scenario_registry) \<and>
   add_course scenario_registry ''Logic'' ''C1'' ''Dr. C'' =
     (Inl (ValueError ''Course code C1 already exists.''), scenario_registry)"
proof -
  have s: "''S1'' \<in> keys (students scenario_registry)"
    by (simp add: keys_def scenario_registry_def)
  have c: "''C1'' \<in> keys (courses scenario_registry)"
    by (simp add: keys_def scenario_registry_def)
  show ?thesis
    using s c
      duplicate_key_rejected [of "''S1''" scenario_registry "''Bob''" 31 "''Y St''"
        "''C1''" "''Logic''" "''Dr. C''"]
    by simp
qed

section \<open>Dictionary forms\<close>

text \<open>
  C9. For every student and every course, \<open>from_dict\<close> applied to the result of
  \<open>to_dict\<close> returns normally an entity with the same value in every field.
\<close>

theorem from_dict_to_dict:
  "Student_from_dict (Student_to_dict s) = Inr s \<and> Course_from_dict (Course_to_dict c) = Inr c"
  by (simp add: Student_from_dict_def Student_to_dict_def Person_to_dict_def getitem_def
      get_default_def Student_init_def Course_from_dict_def Course_to_dict_def Course_init_def)

section \<open>Enrolment and grades\<close>

text \<open>
  C3. In a registry that holds student \<open>sid\<close> and course \<open>cc\<close>, where the student's
  course list lacks \<open>cc\<close> and the course's student list lacks \<open>sid\<close>,
  \<open>enroll_student_in_course\<close> returns normally; afterwards the student's course list
  contains \<open>cc\<close> exactly once and the course's student list contains \<open>sid\<close> exactly
  once, and a second call with the same pair raises the "already enrolled"
  \<open>ValueError\<close> of \<open>Student.enroll_course\<close>.
\<close>

theorem enroll_once_then_duplicate:
  assumes "map_of (students sms) sid = Some st"
    and "map_of (courses sms) cc = Some co"
    and "cc \<notin> set (Student.courses st)"
    and "sid \<notin> set (Course.students co)"
  shows "fst (enroll_student_in_course sms sid cc) = Inr () \<and>
         (\<exists>st1 co1. get_student (snd (enroll_student_in_course sms sid cc)) sid = Inr st1 \<and>
            get_course (snd (enroll_student_in_course sms sid cc)) cc = Inr co1 \<and>
            count_list (Student.courses st1) cc = 1 \<and>
            count_list (Course.students co1) sid = 1) \<and>
         fst (enroll_student_in_course (snd (enroll_student_in_course sms sid cc)) sid cc) =
           Inl (ValueError (''Student '' @ student_id st @ '' already enrolled in '' @ cc @ ''.''))"
proof -
  let ?st1 = "st\<lparr>Student.courses := Student.courses st @ [cc]\<rparr>"
  let ?co1 = "co\<lparr>Course.students := Course.students co @ [sid]\<rparr>"
  let ?sms1 = "sms\<lparr>students := AList.update sid ?st1 (students sms),
                    courses := AList.update cc ?co1 (courses sms)\<rparr>"
  have first: "enroll_student_in_course sms sid cc = (Inr (), ?sms1)"
    using assms
    by (simp add: enroll_student_in_course_def get_student_def get_course_def
        Student_enroll_course_def Course_add_student_def)
  have gs: "get_student ?sms1 sid = Inr ?st1"
    by (simp add: get_student_def update_conv')
  have gc: "get_course ?sms1 cc = Inr ?co1"
    by (simp add: get_course_def update_conv')
  have cnt_s: "count_list (Student.courses ?st1) cc = 1"
    using assms(3) by (simp add: count_list_0_iff)
  have cnt_c: "count_list (Course.students ?co1) sid = 1"
    using assms(4) by (simp add: count_list_0_iff)
  have second: "fst (enroll_student_in_course ?sms1 sid cc) =
      Inl (ValueError (''Student '' @ student_id st @ '' already enrolled in '' @ cc @ ''.''))"
    using gs gc by (simp add: enroll_student_in_course_def Student_enroll_course_def)
  show ?thesis
    using first gs gc cnt_s cnt_c second by simp
qed

theorem enroll_once_then_duplicate_witness:
  "fst (enroll_student_in_course before_enrolment ''S1'' ''C1'') = Inr () \<and>
   (\<exists>st1 co1.
      get_student (snd (enroll_student_in_course before_enrolment ''S1'' ''C1'')) ''S1'' = Inr st1 \<and>
      get_course (snd (enroll_student_in_course before_enrolment ''S1'' ''C1'')) ''C1'' = Inr co1 \<and>
      count_list (Student.courses st1) ''C1'' = 1 \<and>
      count_list (Course.students co1) ''S1'' = 1) \<and>
   fst (enroll_student_in_course
          (snd (enroll_student_in_course before_enrolment ''S1'' ''C1'')) ''S1'' ''C1'') =
     Inl (ValueError ''Student S1 already enrolled in C1.'')"
proof -
  let ?st = "\<lparr>name = ''Alice'', age = 20, address = ''X St'', student_id = ''S1'',
              grades = [], courses = []\<rparr>"
  let ?co = "\<lparr>course_name = ''Algo'', course_code = ''C1'', instructor = ''Dr. B'',
              students = []\<rparr>"
  have s: "map_of (students before_enrolment) ''S1'' = Some ?st"
    by (simp add: before_enrolment_def)
  have c: "map_of (courses before_enrolment) ''C1'' = Some ?co"
    by (simp add: before_enrolment_def)
  have ns: "''C1'' \<notin> set (Student.courses ?st)" by simp
  have nc: "''S1'' \<notin> set (Course.students ?co)" by simp
  show ?thesis
    using enroll_once_then_duplicate [OF s c ns nc] by simp
qed

text \<open>
  C4. For a student stored under \<open>sid\<close>: when \<open>cc\<close> is not in the student's course
  list, \<open>add_grade_for_student\<close> raises the "not enrolled" \<open>ValueError\<close> and changes
  nothing; when it is, the call returns normally, the student's grade dictionary maps
  \<open>cc\<close> to the grade and is otherwise as before, and a further call for the same
  course replaces the grade: the last write wins.
\<close>

theorem add_grade_requires_enrollment:
  assumes "map_of (students sms) sid = Some st"
  shows "(cc \<notin> set (Student.courses st) \<longrightarrow>
            add_grade_for_student sms sid cc g =
              (Inl (ValueError (''Student '' @ sid @ '' is not enrolled in '' @ cc @ ''.'')), sms)) \<and>
         (cc \<in> set (Student.courses st) \<longrightarrow>
            fst (add_grade_for_student sms sid cc g) = Inr () \<and>
            (\<exists>st'. get_student (snd (add_grade_for_student sms sid cc g)) sid = Inr st' \<and>
               map_of (grades st') = (map_of (grades st))(cc \<mapsto> g) \<and>
               Student.courses st' = Student.courses st) \<and>
            (\<exists>st''. get_student
                 (snd (add_grade_for_student (snd (add_grade_for_student sms sid cc g)) sid cc g')) sid
                   = Inr st'' \<and>
               map_of (grades st'') cc = Some g'))"
proof (intro conjI impI)
  assume "cc \<notin> set (Student.courses st)"
  then show "add_grade_for_student sms sid cc g =
      (Inl (ValueError (''Student '' @ sid @ '' is not enrolled in '' @ cc @ ''.'')), sms)"
    using assms by (simp add: add_grade_for_student_def get_student_def)
next
  assume en: "cc \<in> set (Student.courses st)"
  let ?st1 = "st\<lparr>grades := AList.update cc g (grades st)\<rparr>"
  let ?sms1 = "sms\<lparr>students := AList.update sid ?st1 (students sms)\<rparr>"
  have one: "add_grade_for_student sms sid cc g = (Inr (), ?sms1)"
    using assms en
    by (simp add: add_grade_for_student_def get_student_def Student_add_grade_def)
  have gs: "get_student ?sms1 sid = Inr ?st1"
    by (rule get_student_update)
  show "fst (add_grade_for_student sms sid cc g) = Inr ()"
    using one by simp
  show "\<exists>st'. get_student (snd (add_grade_for_student sms sid cc g)) sid = Inr st' \<and>
      map_of (grades st') = (map_of (grades st))(cc \<mapsto> g) \<and>
      Student.courses st' = Student.courses st"
    using one gs by (simp add: update_conv')
  let ?st2 = "?st1\<lparr>grades := AList.update cc g' (grades ?st1)\<rparr>"
  let ?sms2 = "?sms1\<lparr>students := AList.update sid ?st2 (students ?sms1)\<rparr>"
  have two: "add_grade_for_student ?sms1 sid cc g' = (Inr (), ?sms2)"
    using en gs
    by (simp add: add_grade_for_student_def Student_add_grade_def)
  have "get_student ?sms2 sid = Inr ?st2"
    by (rule get_student_update)
  then show "\<exists>st''. get_student
      (snd (add_grade_for_student (snd (add_grade_for_student sms sid cc g)) sid cc g')) sid
        = Inr st'' \<and> map_of (grades st'') cc = Some g'"
    using one two by (simp add: update_conv')
qed

theorem add_grade_requires_enrollment_witness:
  "add_grade_for_student scenario_registry ''S1'' ''C2'' ''B'' =
     (Inl (ValueError ''Student S1 is not enrolled in C2.''), scenario_registry) \<and>
   fst (add_grade_for_student scenario_registry ''S1'' ''C1'' ''B'') = Inr () \<and>
   (\<exists>st'. get_student (snd (add_grade_for_student scenario_registry ''S1'' ''C1'' ''B'')) ''S1''
             = Inr st' \<and>
      map_of (grades st') = [''C1'' \<mapsto> ''B''] \<and> Student.courses st' = [''C1'']) \<and>
   (\<exists>st''. get_student
        (snd (add_grade_for_student
               (snd (add_grade_for_student scenario_registry ''S1'' ''C1'' ''B''))
               ''S1'' ''C1'' ''C'')) ''S1'' = Inr st'' \<and>
      map_of (grades st'') ''C1'' = Some ''C'')"
proof -
  let ?st = "\<lparr>name = ''Alice'', age = 20, address = ''X St'', student_id = ''S1'',
              grades = [(''C1'', ''A'')], courses = [''C1'']\<rparr>"
  have s: "map_of (students scenario_registry) ''S1'' = Some ?st"
    by (simp add: scenario_registry_def)
  show ?thesis
    using add_grade_requires_enrollment [OF s, of "''C2''" "''B''" "''C''"]
      add_grade_requires_enrollment [OF s, of "''C1''" "''B''" "''C''"]
    by simp
qed

section \<open>Entities under their own identifiers\<close>

text \<open>
  C10. In every registry reached from the empty one by a sequence of \<open>add_student\<close>,
  \<open>add_course\<close>, \<open>enroll_student_in_course\<close> and \<open>add_grade_for_student\<close> calls
  (whichever of them raise), each student is stored under its own \<open>student_id\<close> and
  each course under its own \<open>course_code\<close>.
\<close>

theorem stored_under_own_key:
  assumes "list_all in_memory_op cmds"
  shows "key_consistent (snd (run cmds (fs, StudentManagementSystem_init)))"
proof -
  have "key_consistent (snd (fs, StudentManagementSystem_init))"
    by (simp add: key_consistent_def StudentManagementSystem_init_def)
  with assms show ?thesis
    unfolding run_def by (rule key_consistent_fold)
qed

theorem stored_under_own_key_witness:
  "list_all in_memory_op scenario \<and>
   key_consistent (snd (run scenario (no_files, StudentManagementSystem_init))) \<and>
   snd (run scenario (no_files, StudentManagementSystem_init)) = scenario_registry"
proof -
  have h: "list_all in_memory_op scenario"
    by (simp add: scenario_def)
  show ?thesis
    using h stored_under_own_key [OF h, of no_files] by (simp add: scenario_run)
qed

section \<open>Persistence\<close>

text \<open>
  C5, as amended. For a registry whose two collections have pairwise distinct keys
  and whose students' ages each have at most 4300 decimal digits, and a file name
  that opens for writing, \<open>save_data\<close> returns normally, and \<open>load_data\<close> of that
  file into a fresh registry returns normally with the same course collection and a
  student collection that has the same keys and, under each key, the same student
  except that the load-time repair may have appended course codes to the course
  list: each appended code is the key of a course that lists the student, was not
  in the list, and is appended once. In the loaded registry every registered
  student id that a course lists has the course's key in the student's list. When
  that is already so in the saved registry, the loaded registry is exactly the
  saved one.
\<close>

theorem save_then_load:
  assumes "distinct (map fst (students sms))" and "distinct (map fst (courses sms))"
    and "open_for_writing fs f = None"
    and "list_all (\<lambda>(k, s). int_to_str_ok (age s)) (students sms)"
  shows "fst (save_data fs sms f) = Inr () \<and>
         (\<exists>sms'. load_data (snd (save_data fs sms f)) StudentManagementSystem_init f = (Inr (), sms') \<and>
            courses sms' = courses sms \<and>
            courses_appended_within (listings (courses sms)) (students sms) (students sms') \<and>
            listed_students_enrolled (courses sms') (students sms') \<and>
            (listed_students_enrolled (courses sms) (students sms) \<longrightarrow> sms' = sms))"
proof -
  let ?data = "\<lparr>data_students = Some (map (\<lambda>(k, s). (k, Student_to_dict s)) (students sms)),
        data_courses = Some (map (\<lambda>(k, c). (k, Course_to_dict c)) (courses sms))\<rparr>"
  let ?fs = "fs\<lparr>files := (files fs)(f \<mapsto> Document ?data)\<rparr>"
  let ?sms' = "StudentManagementSystem_init\<lparr>students := repair (courses sms) (students sms),
                 courses := courses sms\<rparr>"
  have save: "save_data fs sms f = (Inr (), ?fs)"
    by (rule save_data_writes [OF assms])
  have doc: "files ?fs f = Some (Document ?data)"
    by simp
  have sts: "dict_comp Student_from_dict (get_default (data_students ?data) []) [] = Inr (students sms)"
    by (simp add: get_default_def dict_comp_from_dict [OF assms(1)] Student_from_to_dict)
  have cs: "dict_comp Course_from_dict (get_default (data_courses ?data) []) [] = Inr (courses sms)"
    by (simp add: get_default_def dict_comp_from_dict [OF assms(2)] Course_from_to_dict)
  have load: "load_data ?fs StudentManagementSystem_init f = (Inr (), ?sms')"
    by (rule load_data_reads [OF doc sts cs])
  have same: "?sms' = sms" if "listed_students_enrolled (courses sms) (students sms)"
    using repair_id [OF that] by (simp add: StudentManagementSystem_init_def)
  have enrolled: "listed_students_enrolled (courses ?sms') (students ?sms')"
    by (auto simp: listed_students_enrolled_def list_all_iff repair_enrolls)
  show ?thesis
    using save load same enrolled by (simp add: repair_within)
qed

theorem save_then_load_witness:
  "distinct (map fst (students scenario_registry)) \<and>
   distinct (map fst (courses scenario_registry)) \<and>
   open_for_writing no_files ''out.json'' = None \<and>
   list_all (\<lambda>(k, s). int_to_str_ok (age s)) (students scenario_registry) \<and>
   listed_students_enrolled (courses scenario_registry) (students scenario_registry) \<and>
   fst (save_data no_files scenario_registry ''out.json'') = Inr () \<and>
   load_data (snd (save_data no_files scenario_registry ''out.json''))
       StudentManagementSystem_init ''out.json'' = (Inr (), scenario_registry)"
proof -
  have d1: "distinct (map fst (students scenario_registry))"
    by (simp add: scenario_registry_def)
  have d2: "distinct (map fst (courses scenario_registry))"
    by (simp add: scenario_registry_def)
  have w: "open_for_writing no_files ''out.json'' = None"
    by (simp add: no_files_def)
  have a: "list_all (\<lambda>(k, s). int_to_str_ok (age s)) (students scenario_registry)"
    by (simp add: scenario_registry_def int_to_str_ok_small)
  have l: "listed_students_enrolled (courses scenario_registry) (students scenario_registry)"
    by (simp add: scenario_registry_def listed_students_enrolled_def enrolled_if_registered_def)
  show ?thesis
    using d1 d2 w a l save_then_load [OF d1 d2 w a] by auto
qed

text \<open>
  C5 as stated fails. The registry \<open>listed_not_enrolled\<close> is reached by loading
  \<open>roster.json\<close> and adding Alice as \<open>S1\<close>: course \<open>C1\<close> lists \<open>S1\<close> and Alice's
  course list is empty. Saving it and loading the file into a fresh registry returns
  Alice with the course list \<open>[C1]\<close>.
\<close>

theorem save_then_load_counterexample:
  "snd (run [LoadData ''roster.json'', AddStudent ''Alice'' 20 ''X St'' ''S1'']
         (example_files, StudentManagementSystem_init)) = listed_not_enrolled \<and>
   fst (save_data example_files listed_not_enrolled ''out.json'') = Inr () \<and>
   get_student listed_not_enrolled ''S1'' =
     Inr \<lparr>name = ''Alice'', age = 20, address = ''X St'', student_id = ''S1'',
          grades = [], courses = []\<rparr> \<and>
   load_data (snd (save_data example_files listed_not_enrolled ''out.json''))
       StudentManagementSystem_init ''out.json'' =
     (Inr (), listed_not_enrolled\<lparr>students :=
        [(''S1'', \<lparr>name = ''Alice'', age = 20, address = ''X St'', student_id = ''S1'',
                  grades = [], courses = [''C1'']\<rparr>)]\<rparr>)"
  by (simp add: eval_defs example_files_def roster_document_def listed_not_enrolled_def
      json_dump_ok_def int_to_str_ok_small)

text \<open>
  C6, as amended. \<open>load_data\<close> on a file name that does not exist raises
  \<open>FileNotFoundError\<close> and leaves the registry as it was; a file that
  \<open>json.load\<close> rejects leaves it as it was too, and so does a document in which a
  student record lacks a required key, with the exception that
  \<open>Student.from_dict\<close> raised. When the
  student records are complete and a course record lacks a required key, the call
  raises the exception of \<open>Course.from_dict\<close> with the student collection already
  replaced by the students of the file (unrepaired) and the course collection as it
  was. Whenever \<open>load_data\<close> raises, the course collection is as it was before the
  call.
\<close>

theorem load_failure_state:
  "(files fs f = None \<longrightarrow> load_data fs sms f = (Inl FileNotFoundError, sms)) \<and>
   (files fs f = Some Malformed \<longrightarrow> load_data fs sms f = (Inl JSONDecodeError, sms)) \<and>
   (\<forall>data e. files fs f = Some (Document data) \<and>
       dict_comp Student_from_dict (get_default (data_students data) []) [] = Inl e \<longrightarrow>
       load_data fs sms f = (Inl e, sms)) \<and>
   (\<forall>data sts e. files fs f = Some (Document data) \<and>
       dict_comp Student_from_dict (get_default (data_students data) []) [] = Inr sts \<and>
       dict_comp Course_from_dict (get_default (data_courses data) []) [] = Inl e \<longrightarrow>
       load_data fs sms f = (Inl e, sms\<lparr>students := sts\<rparr>)) \<and>
   (\<forall>e sms'. load_data fs sms f = (Inl e, sms') \<longrightarrow> courses sms' = courses sms)"
  by (auto simp: load_data_def Let_def split: option.splits file_content.splits sum.splits)

theorem load_failure_state_witness:
  "load_data example_files scenario_registry ''missing.json'' =
     (Inl FileNotFoundError, scenario_registry) \<and>
   load_data example_files scenario_registry ''garbage.json'' =
     (Inl JSONDecodeError, scenario_registry) \<and>
   load_data example_files scenario_registry ''anonymous.json'' =
     (Inl (KeyError ''name''), scenario_registry) \<and>
   load_data example_files scenario_registry ''broken.json'' =
     (Inl (KeyError ''course_name''),
      scenario_registry\<lparr>students :=
        [(''S2'', \<lparr>name = ''Bob'', age = 31, address = ''Y St'', student_id = ''S2'',
                  grades = [], courses = []\<rparr>)]\<rparr>) \<and>
   courses (scenario_registry\<lparr>students :=
        [(''S2'', \<lparr>name = ''Bob'', age = 31, address = ''Y St'', student_id = ''S2'',
                  grades = [], courses = []\<rparr>)]\<rparr>) = courses scenario_registry"
proof -
  let ?bob = "\<lparr>name = ''Bob'', age = 31, address = ''Y St'', student_id = ''S2'',
               grades = [], courses = []\<rparr>"
  have missing: "files example_files ''missing.json'' = None"
    by (simp add: example_files_def)
  have garbage: "files example_files ''garbage.json'' = Some Malformed"
    by (simp add: example_files_def)
  have anonymous: "files example_files ''anonymous.json'' = Some (Document anonymous_student_document)"
    by (simp add: example_files_def)
  have undecodable: "dict_comp Student_from_dict
      (get_default (data_students anonymous_student_document) []) [] = Inl (KeyError ''name'')"
    by (simp add: anonymous_student_document_def get_default_def Student_from_dict_def getitem_def)
  have broken: "files example_files ''broken.json'' = Some (Document broken_course_document)"
    by (simp add: example_files_def)
  have bob: "dict_comp Student_from_dict
      (get_default (data_students broken_course_document) []) [] = Inr [(''S2'', ?bob)]"
    by (simp add: broken_course_document_def get_default_def Student_from_dict_def getitem_def
        Student_init_def)
  have nameless: "dict_comp Course_from_dict
      (get_default (data_courses broken_course_document) []) [] = Inl (KeyError ''course_name'')"
    by (simp add: broken_course_document_def get_default_def Course_from_dict_def getitem_def)
  have a: "load_data example_files scenario_registry ''missing.json'' =
      (Inl FileNotFoundError, scenario_registry)"
    by (rule load_failure_state [THEN conjunct1, THEN mp, OF missing])
  have b: "load_data example_files scenario_registry ''garbage.json'' =
      (Inl JSONDecodeError, scenario_registry)"
    by (rule load_failure_state [THEN conjunct2, THEN conjunct1, THEN mp, OF garbage])
  have c: "load_data example_files scenario_registry ''anonymous.json'' =
      (Inl (KeyError ''name''), scenario_registry)"
    by (rule load_failure_state [THEN conjunct2, THEN conjunct2, THEN conjunct1, rule_format,
          OF conjI [OF anonymous undecodable]])
  have d: "load_data example_files scenario_registry ''broken.json'' =
      (Inl (KeyError ''course_name''), scenario_registry\<lparr>students := [(''S2'', ?bob)]\<rparr>)"
    by (rule load_failure_state [THEN conjunct2, THEN conjunct2, THEN conjunct2, THEN conjunct1,
          rule_format, OF conjI [OF broken conjI [OF bob nameless]]])
  have e: "courses (scenario_registry\<lparr>students := [(''S2'', ?bob)]\<rparr>) = courses scenario_registry"
    by (rule load_failure_state [THEN conjunct2, THEN conjunct2, THEN conjunct2, THEN conjunct2,
          rule_format, OF d])
  show ?thesis
    using a b c d e by simp
qed

text \<open>
  C6 as stated fails. In \<open>broken.json\<close> the student record is complete and the course
  record has no \<open>course_name\<close>: \<open>load_data\<close> raises \<open>KeyError\<close> after it has
  assigned the student collection, which now holds Bob instead of Alice, while the
  course collection is the old one.
\<close>

theorem load_failure_counterexample:
  "load_data example_files scenario_registry ''broken.json'' =
     (Inl (KeyError ''course_name''),
      scenario_registry\<lparr>students :=
        [(''S2'', \<lparr>name = ''Bob'', age = 31, address = ''Y St'', student_id = ''S2'',
                  grades = [], courses = []\<rparr>)]\<rparr>) \<and>
   students (snd (load_data example_files scenario_registry ''broken.json''))
     \<noteq> students scenario_registry"
  by (simp add: eval_defs example_files_def broken_course_document_def scenario_registry_def)

text \<open>
  C8, as amended. After \<open>load_data\<close> returns normally, for every course of the loaded
  course collection and every student id it lists that is a key of the loaded
  student collection, the course list of that student has the key under which the
  course is stored (\<open>cc\<close> below; a file can store a course under a key that is not
  its \<open>course_code\<close>). Nothing is repaired in the other direction: the loaded course
  collection is exactly what \<open>Course.from_dict\<close> makes of the file's course records,
  so no course gains a student id, and the loaded students are those
  \<open>Student.from_dict\<close> makes of the file's student records with course codes
  appended, so no course code is removed from a student's list.
\<close>

theorem load_repairs_one_direction:
  assumes "load_data fs sms f = (Inr (), sms')"
  shows "(\<forall>(cc, c) \<in> set (courses sms'). \<forall>sid \<in> set (Course.students c). \<forall>st.
            map_of (students sms') sid = Some st \<longrightarrow> cc \<in> set (Student.courses st)) \<and>
         (\<exists>data sts0. files fs f = Some (Document data) \<and>
            dict_comp Student_from_dict (get_default (data_students data) []) [] = Inr sts0 \<and>
            dict_comp Course_from_dict (get_default (data_courses data) []) [] = Inr (courses sms') \<and>
            only_courses_appended sts0 (students sms'))"
proof -
  obtain data sts0 cs0 where doc: "files fs f = Some (Document data)"
    and sts0: "dict_comp Student_from_dict (get_default (data_students data) []) [] = Inr sts0"
    and cs0: "dict_comp Course_from_dict (get_default (data_courses data) []) [] = Inr cs0"
    and sms': "sms' = sms\<lparr>students := repair cs0 sts0, courses := cs0\<rparr>"
    using load_data_success [OF assms] by blast
  have "cc \<in> set (Student.courses st)"
    if "(cc, c) \<in> set cs0" and "sid \<in> set (Course.students c)"
      and "map_of (repair cs0 sts0) sid = Some st" for cc c sid st
    using repair_enrolls [OF that(1) that(2), of sts0] that(3)
    by (simp add: enrolled_if_registered_def)
  then have forward: "\<forall>(cc, c) \<in> set (courses sms'). \<forall>sid \<in> set (Course.students c). \<forall>st.
      map_of (students sms') sid = Some st \<longrightarrow> cc \<in> set (Student.courses st)"
    by (auto simp: sms')
  have "only_courses_appended sts0 (students sms')"
    by (simp add: sms' repair_appended)
  then show ?thesis
    using forward doc sts0 cs0 by (auto simp: sms')
qed

theorem load_repairs_one_direction_witness:
  "load_data links_only StudentManagementSystem_init ''links.json'' = (Inr (), links_loaded) \<and>
   (\<exists>c1 st. get_course links_loaded ''C1'' = Inr c1 \<and> ''S1'' \<in> set (Course.students c1) \<and>
       get_student links_loaded ''S1'' = Inr st \<and> ''C1'' \<in> set (Student.courses st)) \<and>
   (\<exists>data sts0. files links_only ''links.json'' = Some (Document data) \<and>
       dict_comp Student_from_dict (get_default (data_students data) []) [] = Inr sts0 \<and>
       dict_comp Course_from_dict (get_default (data_courses data) []) [] = Inr (courses links_loaded) \<and>
       only_courses_appended sts0 (students links_loaded)) \<and>
   (\<exists>st c2. get_student links_loaded ''S1'' = Inr st \<and> ''C2'' \<in> set (Student.courses st) \<and>
       get_course links_loaded ''C2'' = Inr c2 \<and> ''S1'' \<notin> set (Course.students c2))"
proof -
  let ?c1 = "\<lparr>course_name = ''Algo'', course_code = ''C1'', instructor = ''Dr. B'',
              students = [''S1'']\<rparr>"
  let ?st = "\<lparr>name = ''Alice'', age = 20, address = ''X St'', student_id = ''S1'',
              grades = [], courses = [''C2'', ''C1'']\<rparr>"
  have h: "load_data links_only StudentManagementSystem_init ''links.json'' = (Inr (), links_loaded)"
    by (rule load_links)
  note t = load_repairs_one_direction [OF h]
  have c1: "(''C1'', ?c1) \<in> set (courses links_loaded)"
    by (simp add: links_loaded_def)
  have listed: "''S1'' \<in> set (Course.students ?c1)"
    by simp
  have st: "map_of (students links_loaded) ''S1'' = Some ?st"
    by (simp add: links_loaded_def)
  have "''C1'' \<in> set (Student.courses ?st)"
    using t [THEN conjunct1] c1 listed st by blast
  moreover have "get_course links_loaded ''C1'' = Inr ?c1"
    by (simp add: links_loaded_def get_course_def)
  moreover have "get_student links_loaded ''S1'' = Inr ?st"
    by (simp add: links_loaded_def get_student_def)
  ultimately have repaired: "\<exists>c1 st. get_course links_loaded ''C1'' = Inr c1 \<and>
      ''S1'' \<in> set (Course.students c1) \<and>
      get_student links_loaded ''S1'' = Inr st \<and> ''C1'' \<in> set (Student.courses st)"
    using listed by blast
  have unrepaired: "\<exists>st c2. get_student links_loaded ''S1'' = Inr st \<and>
      ''C2'' \<in> set (Student.courses st) \<and>
      get_course links_loaded ''C2'' = Inr c2 \<and> ''S1'' \<notin> set (Course.students c2)"
    by (simp add: links_loaded_def get_student_def get_course_def)
  show ?thesis
    using h repaired t [THEN conjunct2] unrepaired by blast
qed

text \<open>
  C8 as stated fails. \<open>mismatch.json\<close> stores a course with the course code \<open>CX\<close>
  under the key \<open>K1\<close>; the course lists \<open>S1\<close>, who is registered. \<open>load_data\<close>
  returns normally, and it is the key that the repair appends to Alice's course
  list, which does not have the course code.
\<close>

theorem load_repairs_one_direction_counterexample:
  "load_data example_files StudentManagementSystem_init ''mismatch.json'' =
     (Inr (),
      \<lparr>students =
         [(''S1'', \<lparr>name = ''Alice'', age = 20, address = ''X St'', student_id = ''S1'',
                   grades = [], courses = [''K1'']\<rparr>)],
       courses =
         [(''K1'', \<lparr>course_name = ''Algo'', course_code = ''CX'', instructor = ''Dr. B'',
                   students = [''S1'']\<rparr>)]\<rparr>) \<and>
   course_code \<lparr>course_name = ''Algo'', course_code = ''CX'', instructor = ''Dr. B'',
                students = [''S1'']\<rparr>
     \<notin> set (Student.courses
           \<lparr>name = ''Alice'', age = 20, address = ''X St'', student_id = ''S1'',
            grades = [], courses = [''K1'']\<rparr>)"
  by (simp add: eval_defs example_files_def mismatch_document_def)

section \<open>Grades only for enrolled courses\<close>

text \<open>
  C7, as amended. Provided that in every document of the file system each student
  record has all its graded course codes in its course list, every sequence of
  registry operations (\<open>add_student\<close>, \<open>add_course\<close>, \<open>enroll_student_in_course\<close>,
  \<open>add_grade_for_student\<close>, \<open>save_data\<close>, \<open>load_data\<close>, whichever of them raise)
  started in a registry where every graded course code of a student is in the
  student's course list ends in such a registry; the empty registry is one.
\<close>

theorem grades_within_courses_preserved:
  assumes "files_grades_ok fs" and "grades_invariant sms"
  shows "grades_invariant (snd (run cmds (fs, sms)))"
  using grades_invariant_fold [of "(fs, sms)" cmds] assms by (simp add: run_def)

theorem grades_within_courses_preserved_witness:
  "files_grades_ok links_only \<and> grades_invariant StudentManagementSystem_init \<and>
   grades_invariant
     (snd (run [LoadData ''links.json'', AddGrade ''S1'' ''C1'' ''A'']
            (links_only, StudentManagementSystem_init))) \<and>
   snd (run [LoadData ''links.json'', AddGrade ''S1'' ''C1'' ''A'']
            (links_only, StudentManagementSystem_init)) =
     links_loaded\<lparr>students :=
        [(''S1'', \<lparr>name = ''Alice'', age = 20, address = ''X St'', student_id = ''S1'',
                  grades = [(''C1'', ''A'')], courses = [''C2'', ''C1'']\<rparr>)]\<rparr>"
proof -
  have f: "files_grades_ok links_only"
    by (auto simp: files_grades_ok_def links_only_def links_document_def content_grades_ok_def
        dict_grades_within_courses_def get_default_def split: if_splits)
  have i: "grades_invariant StudentManagementSystem_init"
    by (simp add: grades_invariant_def StudentManagementSystem_init_def)
  have r: "snd (run [LoadData ''links.json'', AddGrade ''S1'' ''C1'' ''A'']
            (links_only, StudentManagementSystem_init)) =
     links_loaded\<lparr>students :=
        [(''S1'', \<lparr>name = ''Alice'', age = 20, address = ''X St'', student_id = ''S1'',
                  grades = [(''C1'', ''A'')], courses = [''C2'', ''C1'']\<rparr>)]\<rparr>"
    by (simp add: run_def load_links links_loaded_def add_grade_for_student_def get_student_def
        Student_add_grade_def)
  show ?thesis
    using f i r
      grades_within_courses_preserved [OF f i,
        of "[LoadData ''links.json'', AddGrade ''S1'' ''C1'' ''A'']"]
    by simp
qed

text \<open>
  C7 as stated fails. \<open>grades.json\<close> holds a student with a grade for \<open>C1\<close> and an
  empty course list; \<open>load_data\<close> into the empty registry returns normally and stores
  that student as the file has it.
\<close>

theorem grades_within_courses_counterexample:
  "grades_invariant StudentManagementSystem_init \<and>
   load_data example_files StudentManagementSystem_init ''grades.json'' =
     (Inr (),
      \<lparr>students =
         [(''S1'', \<lparr>name = ''Alice'', age = 20, address = ''X St'', student_id = ''S1'',
                   grades = [(''C1'', ''A'')], courses = []\<rparr>)],
       courses = []\<rparr>) \<and>
   \<not> grades_invariant (snd (load_data example_files StudentManagementSystem_init ''grades.json''))"
  by (simp add: eval_defs example_files_def graded_not_enrolled_document_def
      grades_invariant_def grades_within_courses_def)


end
